theory Spec2Isabelle
  imports Main "HOL-Library.Word"
begin

unbundle bit_operations_syntax

section \<open>The cached file protocol of libavformat/cached_file.c\<close>

text \<open>
  The source is a thin layer over the C library: every operation of the protocol is a
  short sequence of calls to stdio, to the descriptor interface and to libavutil.
  The embedding keeps that shape. The handle is a record, the process state outside
  the handle (errno, the allocator's live blocks, the open streams and the sequence of
  library calls issued so far) is a record \<open>world\<close>, and every library call takes the
  answer of the environment as an argument, so that each failure the C library can
  report is a branch of the model. The bytes transferred are not modelled, only their
  number.
\<close>

subsection \<open>C types\<close>

text \<open>
  \<open>int\<close> is 32 bits wide; \<open>size_t\<close>, \<open>off_t\<close> and \<open>int64_t\<close> are 64 bits wide
  (FFmpeg builds with 64-bit file offsets). A pointer is an address, 0 is \<open>NULL\<close>.
\<close>

type_synonym c_int = "32 word"
type_synonym int64_t = "64 word"
type_synonym size_t = "64 word"
type_synonym off_t = "64 word"
type_synonym ptr = nat

text \<open>The answer of the environment to a call that can fail: a value, or the errno it sets.\<close>

datatype 'a outcome = Ok 'a | Err c_int

subsection \<open>Constants of headers that are not part of the source file\<close>

text \<open>
  Modelled from the spec: \<open>AVERROR\<close> is a macro of libavutil/error.h, which is not
  under src/. The spec describes it as mapping the platform error value to "a negative
  error code corresponding to the platform's last-error value"; on a platform with
  positive errno values the macro is the negation.
\<close>

definition AVERROR :: "c_int \<Rightarrow> c_int" where
  "AVERROR e = - e"

text \<open>
  Modelled from the spec: the mode flags and the size-query selector are macros of
  libavformat/avio.h, which is not under src/. The spec names the modes read-only,
  write-only and read-write, the last being both flags together; the values are the
  ones of that header (read 1, write 2, size query 0x10000).
\<close>

definition AVIO_FLAG_READ :: c_int where
  "AVIO_FLAG_READ = 1"

definition AVIO_FLAG_WRITE :: c_int where
  "AVIO_FLAG_WRITE = 2"

definition AVIO_FLAG_READ_WRITE :: c_int where
  "AVIO_FLAG_READ_WRITE = AVIO_FLAG_READ OR AVIO_FLAG_WRITE"

definition AVSEEK_SIZE :: c_int where
  "AVSEEK_SIZE = 0x10000"

text \<open>
  Modelled from the spec: the errno values and the permission bits come from the
  platform's errno.h and sys/stat.h, which are not under src/. \<open>ENOSYS\<close> is the
  "function not implemented" value (38 on Linux), \<open>S_IRUSR\<close> and \<open>S_IWUSR\<close> are
  the owner read and owner write permission bits (octal 400 and 200).
\<close>

definition ENOSYS :: c_int where
  "ENOSYS = 38"

definition EBADF :: c_int where
  "EBADF = 9"

definition S_IRUSR :: "32 word" where
  "S_IRUSR = 256"

definition S_IWUSR :: "32 word" where
  "S_IWUSR = 128"

subsection \<open>The handle\<close>

text \<open>
  \<open>CachedFileContext\<close> as the source declares it, without the \<open>class\<close> pointer, which
  no operation reads. The field \<open>f\<close> of the source is \<open>f_ptr\<close> here.
\<close>

record CachedFileContext =
  fd :: c_int
  f_ptr :: ptr
  buf_size :: c_int
  write_flags :: c_int
  buf :: ptr

text \<open>Of \<open>URLContext\<close> the source reads \<open>filename\<close> and \<open>priv_data\<close> only.\<close>

record URLContext =
  filename :: string
  priv_data :: CachedFileContext

subsection \<open>The process state and the library calls\<close>

datatype buffering = LibcDefault | FullyBuffered ptr size_t | Unbuffered

record stream =
  s_fd :: c_int
  s_mode :: string
  s_buffering :: buffering
  s_pos :: off_t

datatype libc_call =
    Fopen string string
  | Fileno ptr
  | Setvbuf_IOFBF ptr ptr size_t
  | Fread ptr size_t
  | Fwrite ptr size_t
  | Fflush ptr
  | Fsync c_int
  | Fclose ptr
  | Fstat c_int
  | Stat string
  | Fseeko ptr off_t c_int
  | Ftello ptr
  | Av_malloc size_t
  | Av_free ptr
  | Av_log

record world =
  errno :: c_int
  heap :: "ptr \<rightharpoonup> size_t"
  streams :: "ptr \<rightharpoonup> stream"
  calls :: "libc_call list"
  bad_free :: bool

record stat_t =
  st_mode :: "32 word"
  st_size :: off_t

text \<open>What a stream can transfer before it stops, and the errno of the I/O error, if any.\<close>

record transfer =
  avail :: size_t
  io_error :: "c_int option"

definition issue :: "libc_call \<Rightarrow> world \<Rightarrow> world" where
  "issue ev w = w\<lparr>calls := calls w @ [ev]\<rparr>"

text \<open>
  Modelled from the spec: \<open>av_strstart\<close> (libavutil/avstring.c) is not under src/.
  It compares the string with the prefix character by character; when the whole prefix
  matches it stores the rest of the string through the pointer and returns 1, otherwise
  it leaves the pointer alone and returns 0 ("the scheme token is stripped before use").
\<close>

fun av_strstart :: "string \<Rightarrow> string \<Rightarrow> string \<Rightarrow> c_int \<times> string" where
  "av_strstart str [] p = (1, str)"
| "av_strstart [] (x # pfx) p = (0, p)"
| "av_strstart (s # str) (x # pfx) p = (if x = s then av_strstart str pfx p else (0, p))"

text \<open>
  Modelled from the spec: \<open>av_malloc\<close>, \<open>av_free\<close> and \<open>av_log\<close> (libavutil) are not
  under src/. \<open>av_malloc\<close> returns the address chosen by the allocator, or \<open>NULL\<close>;
  \<open>av_free\<close> releases a live block, does nothing on \<open>NULL\<close>, and freeing anything
  else is the double free the spec excludes, recorded in \<open>bad_free\<close>. \<open>av_log\<close> writes
  a diagnostic and may overwrite errno.
\<close>

definition av_malloc :: "size_t \<Rightarrow> ptr \<Rightarrow> world \<Rightarrow> ptr \<times> world" where
  "av_malloc n r w =
     (if r = 0 then (0, issue (Av_malloc n) w)
      else (r, (issue (Av_malloc n) w)\<lparr>heap := (heap w)(r \<mapsto> n)\<rparr>))"

definition av_free :: "ptr \<Rightarrow> world \<Rightarrow> world" where
  "av_free p w =
     (if p = 0 then issue (Av_free p) w
      else if heap w p \<noteq> None then (issue (Av_free p) w)\<lparr>heap := (heap w)(p := None)\<rparr>
      else (issue (Av_free p) w)\<lparr>bad_free := True\<rparr>)"

definition av_log :: "c_int option \<Rightarrow> world \<Rightarrow> world" where
  "av_log r w =
     (case r of None \<Rightarrow> issue Av_log w | Some e \<Rightarrow> (issue Av_log w)\<lparr>errno := e\<rparr>)"

text \<open>
  The C library. A call on a pointer that is not an open stream is undefined in C; the
  model lets the answer of the environment stand and changes no stream.
\<close>

definition fopen :: "string \<Rightarrow> string \<Rightarrow> (ptr \<times> c_int) outcome \<Rightarrow> world \<Rightarrow> ptr \<times> world" where
  "fopen path mode r w =
     (case r of
        Ok (fp, fdn) \<Rightarrow>
          (fp, (issue (Fopen path mode) w)
                 \<lparr>streams := (streams w)(fp \<mapsto>
                    \<lparr>s_fd = fdn, s_mode = mode, s_buffering = LibcDefault, s_pos = 0\<rparr>)\<rparr>)
      | Err e \<Rightarrow> (0, (issue (Fopen path mode) w)\<lparr>errno := e\<rparr>))"

definition fileno :: "ptr \<Rightarrow> world \<Rightarrow> c_int \<times> world" where
  "fileno fp w =
     (case streams w fp of
        Some s \<Rightarrow> (s_fd s, issue (Fileno fp) w)
      | None \<Rightarrow> (- 1, (issue (Fileno fp) w)\<lparr>errno := EBADF\<rparr>))"

definition setvbuf :: "ptr \<Rightarrow> ptr \<Rightarrow> size_t \<Rightarrow> unit outcome \<Rightarrow> world \<Rightarrow> c_int \<times> world" where
  "setvbuf fp b n r w =
     (case r of
        Ok u \<Rightarrow>
          (0, (issue (Setvbuf_IOFBF fp b n) w)
                \<lparr>streams := (case streams w fp of
                                None \<Rightarrow> streams w
                              | Some s \<Rightarrow> (streams w)(fp \<mapsto> s\<lparr>s_buffering := FullyBuffered b n\<rparr>))\<rparr>)
      | Err e \<Rightarrow> (- 1, (issue (Setvbuf_IOFBF fp b n) w)\<lparr>errno := e\<rparr>))"

definition advance :: "ptr \<Rightarrow> size_t \<Rightarrow> transfer \<Rightarrow> world \<Rightarrow> world" where
  "advance fp k t w =
     (let w1 = w\<lparr>streams := (case streams w fp of
                                None \<Rightarrow> streams w
                              | Some s \<Rightarrow> (streams w)(fp \<mapsto> s\<lparr>s_pos := s_pos s + k\<rparr>))\<rparr>
      in case io_error t of None \<Rightarrow> w1 | Some e \<Rightarrow> w1\<lparr>errno := e\<rparr>)"

text \<open>
  \<open>fread\<close> and \<open>fwrite\<close> with item size 1: the number of items transferred is what the
  stream can transfer, at most the number asked for.
\<close>

definition fread :: "size_t \<Rightarrow> ptr \<Rightarrow> transfer \<Rightarrow> world \<Rightarrow> size_t \<times> world" where
  "fread nmemb fp t w =
     (let k = min (avail t) nmemb in (k, advance fp k t (issue (Fread fp nmemb) w)))"

definition fwrite :: "size_t \<Rightarrow> ptr \<Rightarrow> transfer \<Rightarrow> world \<Rightarrow> size_t \<times> world" where
  "fwrite nmemb fp t w =
     (let k = min (avail t) nmemb in (k, advance fp k t (issue (Fwrite fp nmemb) w)))"

definition fflush :: "ptr \<Rightarrow> unit outcome \<Rightarrow> world \<Rightarrow> c_int \<times> world" where
  "fflush fp r w =
     (case r of
        Ok u \<Rightarrow> (0, issue (Fflush fp) w)
      | Err e \<Rightarrow> (- 1, (issue (Fflush fp) w)\<lparr>errno := e\<rparr>))"

definition fsync :: "c_int \<Rightarrow> unit outcome \<Rightarrow> world \<Rightarrow> c_int \<times> world" where
  "fsync fdn r w =
     (case r of
        Ok u \<Rightarrow> (0, issue (Fsync fdn) w)
      | Err e \<Rightarrow> (- 1, (issue (Fsync fdn) w)\<lparr>errno := e\<rparr>))"

text \<open>Whether \<open>fclose\<close> succeeds or not, the stream is gone afterwards.\<close>

definition fclose :: "ptr \<Rightarrow> unit outcome \<Rightarrow> world \<Rightarrow> c_int \<times> world" where
  "fclose fp r w =
     (case r of
        Ok u \<Rightarrow> (0, (issue (Fclose fp) w)\<lparr>streams := (streams w)(fp := None)\<rparr>)
      | Err e \<Rightarrow> (- 1, (issue (Fclose fp) w)\<lparr>streams := (streams w)(fp := None), errno := e\<rparr>))"

text \<open>
  \<open>stat\<close> and \<open>fstat\<close> return 0 and fill the structure (\<open>Some\<close>), or return -1, set errno
  and leave it unfilled (\<open>None\<close>).
\<close>

definition fstat :: "c_int \<Rightarrow> stat_t outcome \<Rightarrow> world \<Rightarrow> stat_t option \<times> world" where
  "fstat fdn r w =
     (case r of
        Ok st \<Rightarrow> (Some st, issue (Fstat fdn) w)
      | Err e \<Rightarrow> (None, (issue (Fstat fdn) w)\<lparr>errno := e\<rparr>))"

definition stat :: "string \<Rightarrow> stat_t outcome \<Rightarrow> world \<Rightarrow> stat_t option \<times> world" where
  "stat path r w =
     (case r of
        Ok st \<Rightarrow> (Some st, issue (Stat path) w)
      | Err e \<Rightarrow> (None, (issue (Stat path) w)\<lparr>errno := e\<rparr>))"

text \<open>The environment answers a successful \<open>fseeko\<close> with the new position of the stream.\<close>

definition fseeko :: "ptr \<Rightarrow> off_t \<Rightarrow> c_int \<Rightarrow> off_t outcome \<Rightarrow> world \<Rightarrow> c_int \<times> world" where
  "fseeko fp off whence r w =
     (case r of
        Ok pos \<Rightarrow>
          (0, (issue (Fseeko fp off whence) w)
                \<lparr>streams := (case streams w fp of
                                None \<Rightarrow> streams w
                              | Some s \<Rightarrow> (streams w)(fp \<mapsto> s\<lparr>s_pos := pos\<rparr>))\<rparr>)
      | Err e \<Rightarrow> (- 1, (issue (Fseeko fp off whence) w)\<lparr>errno := e\<rparr>))"

definition ftello :: "ptr \<Rightarrow> unit outcome \<Rightarrow> world \<Rightarrow> off_t \<times> world" where
  "ftello fp r w =
     (case r of
        Ok u \<Rightarrow>
          (case streams w fp of
             Some s \<Rightarrow> (s_pos s, issue (Ftello fp) w)
           | None \<Rightarrow> (- 1, (issue (Ftello fp) w)\<lparr>errno := EBADF\<rparr>))
      | Err e \<Rightarrow> (- 1, (issue (Ftello fp) w)\<lparr>errno := e\<rparr>))"

subsection \<open>The operations of the protocol\<close>

definition cached_file_read :: "URLContext \<Rightarrow> c_int \<Rightarrow> transfer \<Rightarrow> world \<Rightarrow> c_int \<times> world" where
  "cached_file_read h n t w =
     (let c = priv_data h;
          (k, w1) = fread (scast n) (f_ptr c) t w
      in (ucast k, w1))"

definition cached_file_write :: "URLContext \<Rightarrow> c_int \<Rightarrow> transfer \<Rightarrow> world \<Rightarrow> c_int \<times> world" where
  "cached_file_write h n t w =
     (let c = priv_data h;
          (k, w1) = fwrite (scast n) (f_ptr c) t w
      in (ucast k, w1))"

definition cached_file_get_handle :: "URLContext \<Rightarrow> c_int" where
  "cached_file_get_handle h = fd (priv_data h)"

text \<open>The file system answers \<open>stat\<close> for every path: \<open>fs\<close> is that answer.\<close>

definition cached_file_check :: "URLContext \<Rightarrow> c_int \<Rightarrow> (string \<Rightarrow> stat_t outcome) \<Rightarrow> world \<Rightarrow> c_int \<times> world" where
  "cached_file_check h msk fs w =
     (let name = snd (av_strstart (filename h) ''file:'' (filename h));
          (st, w1) = stat name (fs name) w
      in case st of
           None \<Rightarrow> (AVERROR (errno w1), w1)
         | Some s \<Rightarrow>
             (let ret = 0;
                  ret = ret OR (if st_mode s AND S_IRUSR \<noteq> 0 then msk AND AVIO_FLAG_READ else 0);
                  ret = ret OR (if st_mode s AND S_IWUSR \<noteq> 0 then msk AND AVIO_FLAG_WRITE else 0)
              in (ret, w1)))"

definition cached_file_delete :: "URLContext \<Rightarrow> c_int" where
  "cached_file_delete h = AVERROR ENOSYS"

definition cached_file_move :: "URLContext \<Rightarrow> URLContext \<Rightarrow> c_int" where
  "cached_file_move h_src h_dst = AVERROR ENOSYS"

record seek_env =
  seek_fflush :: "unit outcome"
  seek_fstat :: "stat_t outcome"
  seek_fseeko :: "off_t outcome"
  seek_av_log :: "c_int option"
  seek_ftello :: "unit outcome"

definition cached_file_seek :: "URLContext \<Rightarrow> int64_t \<Rightarrow> c_int \<Rightarrow> seek_env \<Rightarrow> world \<Rightarrow> int64_t \<times> world" where
  "cached_file_seek h pos whence env w =
     (let c = priv_data h in
      if whence = AVSEEK_SIZE then
        (let (r, w1) = fflush (f_ptr c) (seek_fflush env) w;
             (st, w2) = fstat (fd c) (seek_fstat env) w1
         in case st of
              None \<Rightarrow> (scast (AVERROR (errno w2)), w2)
            | Some s \<Rightarrow> (st_size s, w2))
      else
        (let (ret, w1) = fseeko (f_ptr c) pos whence (seek_fseeko env) w
         in if ret \<noteq> 0 then
              (let w2 = av_log (seek_av_log env) w1
               in (scast (AVERROR (errno w2)), w2))
            else
              (let (ret, w2) = ftello (f_ptr c) (seek_ftello env) w1
               in (if sint ret < 0 then scast (AVERROR (errno w2)) else ret, w2))))"

record open_env =
  open_fopen :: "(ptr \<times> c_int) outcome"
  open_av_log :: "c_int option"
  open_av_malloc :: ptr
  open_setvbuf :: "unit outcome"

definition cached_file_open :: "URLContext \<Rightarrow> string \<Rightarrow> c_int \<Rightarrow> open_env \<Rightarrow> world \<Rightarrow> c_int \<times> URLContext \<times> world" where
  "cached_file_open h fname flags env w =
     (let c = priv_data h;
          name = snd (av_strstart fname ''cf:'' fname);
          (mode, c) =
            (if flags AND AVIO_FLAG_WRITE \<noteq> 0 \<and> flags AND AVIO_FLAG_READ \<noteq> 0
               then (''w+b'', c\<lparr>write_flags := 1\<rparr>)
             else if flags AND AVIO_FLAG_WRITE \<noteq> 0
               then (''wb'', c\<lparr>write_flags := 1\<rparr>)
             else (''rb'', c\<lparr>write_flags := 0\<rparr>));
          (fp, w1) = fopen name mode (open_fopen env) w
      in if fp = 0 then
           (let w2 = av_log (open_av_log env) w1
            in (AVERROR (errno w2), h\<lparr>priv_data := c\<rparr>, w2))
         else
           (let (c, w2) =
                  (if buf_size c \<noteq> 0 then
                     (let (p, wa) = av_malloc (scast (buf_size c)) (open_av_malloc env) w1;
                          (r, wb) = setvbuf fp p (scast (buf_size c)) (open_setvbuf env) wa
                      in (c\<lparr>buf := p\<rparr>, wb))
                   else (c\<lparr>buf := 0\<rparr>, w1));
                c = c\<lparr>f_ptr := fp\<rparr>;
                (fdn, w3) = fileno fp w2;
                c = c\<lparr>fd := fdn\<rparr>
            in (0, h\<lparr>priv_data := c\<rparr>, w3)))"

record close_env =
  close_fflush :: "unit outcome"
  close_fsync :: "unit outcome"
  close_fclose :: "unit outcome"

definition cached_file_close :: "URLContext \<Rightarrow> close_env \<Rightarrow> world \<Rightarrow> c_int \<times> world" where
  "cached_file_close h env w =
     (let c = priv_data h;
          w1 = (if write_flags c \<noteq> 0 then
                  (let (r1, wa) = fflush (f_ptr c) (close_fflush env) w;
                       (r2, wb) = fsync (fd c) (close_fsync env) wa
                   in wb)
                else w);
          (r, w2) = fclose (f_ptr c) (close_fclose env) w1
      in if r \<noteq> 0 then (AVERROR (errno w2), w2)
         else (0, av_free (buf c) w2))"

subsection \<open>Sequences of operations on an open handle\<close>

text \<open>
  The operations a caller can apply to a handle after \<open>cached_file_open\<close>, each with
  its arguments and the answers of the environment. None of them assigns to a field of
  the handle in the source, so \<open>step\<close> hands the handle on as it is.
\<close>

datatype op =
    Read c_int transfer
  | Write c_int transfer
  | Seek int64_t c_int seek_env
  | Get_handle
  | Check c_int "string \<Rightarrow> stat_t outcome"
  | Delete
  | Move URLContext
  | Close close_env

fun step :: "op \<Rightarrow> URLContext \<times> world \<Rightarrow> URLContext \<times> world" where
  "step (Read n t) (h, w) = (h, snd (cached_file_read h n t w))"
| "step (Write n t) (h, w) = (h, snd (cached_file_write h n t w))"
| "step (Seek pos whence env) (h, w) = (h, snd (cached_file_seek h pos whence env w))"
| "step Get_handle (h, w) = (h, w)"
| "step (Check msk fs) (h, w) = (h, snd (cached_file_check h msk fs w))"
| "step Delete (h, w) = (h, w)"
| "step (Move h_dst) (h, w) = (h, w)"
| "step (Close env) (h, w) = (h, snd (cached_file_close h env w))"

fun run :: "op list \<Rightarrow> URLContext \<times> world \<Rightarrow> URLContext \<times> world" where
  "run [] s = s"
| "run (x # xs) s = run xs (step x s)"

fun is_av_malloc :: "libc_call \<Rightarrow> bool" where
  "is_av_malloc (Av_malloc n) = True"
| "is_av_malloc c = False"

subsection \<open>Concrete handles and environments\<close>

definition h_new :: "c_int \<Rightarrow> URLContext" where
  "h_new s = \<lparr>filename = ''cf:test.bin'',
              priv_data = \<lparr>fd = 0, f_ptr = 0, buf_size = s, write_flags = 0, buf = 0\<rparr>\<rparr>"

definition w_new :: world where
  "w_new = \<lparr>errno = 0, heap = Map.empty, streams = Map.empty, calls = [], bad_free = False\<rparr>"

definition open_ok :: open_env where
  "open_ok = \<lparr>open_fopen = Ok (100, 3), open_av_log = None,
              open_av_malloc = 4096, open_setvbuf = Ok ()\<rparr>"

definition fs_test :: "string \<Rightarrow> stat_t outcome" where
  "fs_test path =
     (if path = ''test.bin'' then Ok \<lparr>st_mode = 0x8100, st_size = 1000\<rparr> else Err 2)"

text \<open>
  The handle and the world that \<open>cached_file_open\<close> leaves for the write mode with the
  default buffer of 1 MiB, and for the read mode with \<open>buf_size\<close> 0.
\<close>

definition h_wr :: URLContext where
  "h_wr = \<lparr>filename = ''cf:test.bin'',
           priv_data = \<lparr>fd = 3, f_ptr = 100, buf_size = 1048576, write_flags = 1, buf = 4096\<rparr>\<rparr>"

definition w_wr :: world where
  "w_wr = \<lparr>errno = 0,
           heap = [4096 \<mapsto> 1048576],
           streams = [100 \<mapsto> \<lparr>s_fd = 3, s_mode = ''wb'',
                                 s_buffering = FullyBuffered 4096 1048576, s_pos = 0\<rparr>],
           calls = [Fopen ''test.bin'' ''wb'', Av_malloc 1048576,
                    Setvbuf_IOFBF 100 4096 1048576, Fileno 100],
           bad_free = False\<rparr>"

definition h_rd :: URLContext where
  "h_rd = \<lparr>filename = ''cf:test.bin'',
           priv_data = \<lparr>fd = 3, f_ptr = 100, buf_size = 0, write_flags = 0, buf = 0\<rparr>\<rparr>"

definition w_rd :: world where
  "w_rd = \<lparr>errno = 0,
           heap = Map.empty,
           streams = [100 \<mapsto> \<lparr>s_fd = 3, s_mode = ''rb'',
                                 s_buffering = LibcDefault, s_pos = 0\<rparr>],
           calls = [Fopen ''test.bin'' ''rb'', Fileno 100],
           bad_free = False\<rparr>"

section \<open>Auxiliary facts\<close>

subsection \<open>Casts and negation on machine integers\<close>

lemma sint_AVERROR_neg: "0 < sint e \<Longrightarrow> sint (AVERROR e) < 0"
proof -
  assume pos: "0 < sint e"
  have up: "sint e < 2 ^ 31" using sint_lt [of e] by simp
  have "sint (- e) = signed_take_bit 31 (- sint e)"
    by (simp add: sint_word_ariths)
  also have "\<dots> = - sint e"
    using pos up by (intro signed_take_bit_int_eq_self) auto
  finally show ?thesis using pos by (simp add: AVERROR_def)
qed

lemma sint_scast_up: "sint (scast (x :: 32 word) :: 64 word) = sint x"
  by (simp add: sint_up_scast is_up)

lemma uint_scast_nonneg: "0 \<le> sint (n :: 32 word) \<Longrightarrow> uint (scast n :: 64 word) = sint n"
proof -
  assume nn: "0 \<le> sint n"
  have n31: "sint n < 2 ^ 31" using sint_lt [of n] by simp
  have "(2::int) ^ 31 \<le> 2 ^ 64" by simp
  then have n64: "sint n < 2 ^ 64" using n31 by linarith
  have "uint (scast n :: 64 word) = take_bit 64 (sint (scast n :: 64 word))"
    using uint_sint [of "scast n :: 64 word"] by simp
  also have "\<dots> = take_bit 64 (sint n)" by (simp only: sint_scast_up)
  also have "\<dots> = sint n"
    using nn n64 by (rule take_bit_int_eq_self)
  finally show ?thesis .
qed

lemma cast_back:
  assumes nn: "0 \<le> sint (n :: 32 word)" and le: "(k :: 64 word) \<le> scast n"
  shows "sint (ucast k :: 32 word) = uint k" and "uint k \<le> sint n"
proof -
  have kn: "uint k \<le> sint n"
    using le uint_scast_nonneg [OF nn] by (simp add: word_le_def)
  have n31: "sint n < 2 ^ 31" using sint_lt [of n] by simp
  have k31: "uint k < 2 ^ 31" using kn n31 by linarith
  have k0: "0 \<le> uint k" by simp
  have "sint (ucast k :: 32 word) = signed_take_bit 31 (uint k)"
    by (simp add: signed_ucast_eq signed_take_bit_take_bit)
  also have "\<dots> = uint k"
    using k0 k31 by (intro signed_take_bit_int_eq_self) linarith+
  finally show "sint (ucast k :: 32 word) = uint k" .
  show "uint k \<le> sint n" by (rule kn)
qed

lemma and_or_bits:
  "((if p then (m :: 32 word) AND 1 else 0) OR (if q then m AND 2 else 0)) AND 1 =
     (if p then m AND 1 else 0)"
  "((if p then (m :: 32 word) AND 1 else 0) OR (if q then m AND 2 else 0)) AND 2 =
     (if q then m AND 2 else 0)"
  by (simp_all add: bit.conj_disj_distrib2 and.assoc)

lemma flag_bits:
  "AVIO_FLAG_READ AND AVIO_FLAG_WRITE = 0"
  "AVIO_FLAG_READ AND AVIO_FLAG_READ \<noteq> 0"
  "AVIO_FLAG_WRITE AND AVIO_FLAG_WRITE \<noteq> 0"
  "AVIO_FLAG_WRITE AND AVIO_FLAG_READ = 0"
  "AVIO_FLAG_READ_WRITE AND AVIO_FLAG_READ \<noteq> 0"
  "AVIO_FLAG_READ_WRITE AND AVIO_FLAG_WRITE \<noteq> 0"
  by (simp_all add: AVIO_FLAG_READ_def AVIO_FLAG_WRITE_def AVIO_FLAG_READ_WRITE_def)

subsection \<open>What a sequence of operations leaves alone\<close>

lemma issue_simps [simp]:
  "calls (issue ev w) = calls w @ [ev]"
  "heap (issue ev w) = heap w"
  "streams (issue ev w) = streams w"
  "errno (issue ev w) = errno w"
  "bad_free (issue ev w) = bad_free w"
  by (simp_all add: issue_def)

lemma step_handle: "fst (step x s) = fst s"
  by (cases x; cases s) simp_all

lemma run_handle: "fst (run xs s) = fst s"
  by (induction xs arbitrary: s) (simp_all add: step_handle)

lemma step_no_malloc:
  "filter is_av_malloc (calls (snd (step x s))) = filter is_av_malloc (calls (snd s))"
proof (cases s)
  case (Pair h w)
  show ?thesis
  proof (cases x)
    case (Read n t)
    then show ?thesis using Pair
      by (simp add: cached_file_read_def fread_def advance_def Let_def split: option.splits)
  next
    case (Write n t)
    then show ?thesis using Pair
      by (simp add: cached_file_write_def fwrite_def advance_def Let_def split: option.splits)
  next
    case (Seek pos whence env)
    then show ?thesis using Pair
      by (simp add: cached_file_seek_def fflush_def fstat_def fseeko_def ftello_def av_log_def
            Let_def split: outcome.splits option.splits prod.splits)
  next
    case (Check msk fs)
    then show ?thesis using Pair
      by (simp add: cached_file_check_def stat_def Let_def split: outcome.splits)
  next
    case (Close env)
    then show ?thesis using Pair
      by (simp add: cached_file_close_def fflush_def fsync_def fclose_def av_free_def
            Let_def split: outcome.splits)
  qed (simp_all add: Pair)
qed

lemma run_no_malloc:
  "filter is_av_malloc (calls (snd (run xs s))) = filter is_av_malloc (calls (snd s))"
  by (induction xs arbitrary: s) (simp_all add: step_no_malloc)

section \<open>Open\<close>

lemma open_write_example:
  "cached_file_open (h_new 1048576) ''cf:test.bin'' AVIO_FLAG_WRITE open_ok w_new = (0, h_wr, w_wr)"
  by (simp add: cached_file_open_def h_new_def open_ok_def w_new_def h_wr_def w_wr_def
        AVIO_FLAG_WRITE_def AVIO_FLAG_READ_def fopen_def av_malloc_def setvbuf_def fileno_def
        issue_def Let_def)

lemma open_read_example:
  "cached_file_open (h_new 0) ''cf:test.bin'' AVIO_FLAG_READ open_ok w_new = (0, h_rd, w_rd)"
  by (simp add: cached_file_open_def h_new_def open_ok_def w_new_def h_rd_def w_rd_def
        AVIO_FLAG_WRITE_def AVIO_FLAG_READ_def fopen_def av_malloc_def setvbuf_def fileno_def
        issue_def Let_def)

lemma open_rb:
  "flags AND AVIO_FLAG_WRITE = 0 \<Longrightarrow>
     calls (snd (snd (cached_file_open h fname flags env w))) ! length (calls w) =
       Fopen (snd (av_strstart fname ''cf:'' fname)) ''rb''
   \<and> write_flags (priv_data (fst (snd (cached_file_open h fname flags env w)))) = 0"
  by (simp add: cached_file_open_def fopen_def av_log_def av_malloc_def setvbuf_def fileno_def
        Let_def nth_append split: outcome.splits option.splits prod.splits)

lemma open_wb:
  "flags AND AVIO_FLAG_WRITE \<noteq> 0 \<Longrightarrow> flags AND AVIO_FLAG_READ = 0 \<Longrightarrow>
     calls (snd (snd (cached_file_open h fname flags env w))) ! length (calls w) =
       Fopen (snd (av_strstart fname ''cf:'' fname)) ''wb''
   \<and> write_flags (priv_data (fst (snd (cached_file_open h fname flags env w)))) = 1"
  by (simp add: cached_file_open_def fopen_def av_log_def av_malloc_def setvbuf_def fileno_def
        Let_def nth_append split: outcome.splits option.splits prod.splits)

lemma open_wpb:
  "flags AND AVIO_FLAG_WRITE \<noteq> 0 \<Longrightarrow> flags AND AVIO_FLAG_READ \<noteq> 0 \<Longrightarrow>
     calls (snd (snd (cached_file_open h fname flags env w))) ! length (calls w) =
       Fopen (snd (av_strstart fname ''cf:'' fname)) ''w+b''
   \<and> write_flags (priv_data (fst (snd (cached_file_open h fname flags env w)))) = 1"
  by (simp add: cached_file_open_def fopen_def av_log_def av_malloc_def setvbuf_def fileno_def
        Let_def nth_append split: outcome.splits option.splits prod.splits)

lemma open_returns_0:
  "open_fopen env = Ok (fp, fdn) \<Longrightarrow> fp \<noteq> 0 \<Longrightarrow> fst (cached_file_open h fname flags env w) = 0"
  by (simp add: cached_file_open_def fopen_def av_malloc_def setvbuf_def fileno_def
        Let_def split: outcome.splits option.splits prod.splits)

lemma open_with_buffer:
  "open_fopen env = Ok (fp, fdn) \<Longrightarrow> fp \<noteq> 0 \<Longrightarrow> buf_size (priv_data h) \<noteq> 0 \<Longrightarrow>
   open_av_malloc env \<noteq> 0 \<Longrightarrow> open_setvbuf env = Ok () \<Longrightarrow>
   cached_file_open h fname flags env w = (r, h', w') \<Longrightarrow>
     buf (priv_data h') = open_av_malloc env
   \<and> heap w' (buf (priv_data h')) = Some (scast (buf_size (priv_data h)))
   \<and> map_option s_buffering (streams w' fp) =
       Some (FullyBuffered (buf (priv_data h')) (scast (buf_size (priv_data h))))"
  by (auto simp add: cached_file_open_def fopen_def av_malloc_def setvbuf_def fileno_def
        Let_def split: if_splits)

lemma open_without_buffer:
  "open_fopen env = Ok (fp, fdn) \<Longrightarrow> fp \<noteq> 0 \<Longrightarrow> buf_size (priv_data h) = 0 \<Longrightarrow>
   cached_file_open h fname flags env w = (r, h', w') \<Longrightarrow>
     buf (priv_data h') = 0
   \<and> heap w' = heap w
   \<and> map_option s_buffering (streams w' fp) = Some LibcDefault
   \<and> (\<exists>mode. calls w' = calls w @ [Fopen (snd (av_strstart fname ''cf:'' fname)) mode, Fileno fp])"
  by (auto simp add: cached_file_open_def fopen_def av_malloc_def setvbuf_def fileno_def
        Let_def split: if_splits)

text \<open>
  Claim C6. For the three documented mode flags, \<open>cached_file_open\<close> passes to \<open>fopen\<close> the
  mode \<open>rb\<close> for read-only, \<open>wb\<close> for write-only and \<open>w+b\<close> for read-write, and stores 0 in
  \<open>write_flags\<close> for read-only and 1 for the two others; the mode is the one of the first
  library call the operation issues, whether or not \<open>fopen\<close> then succeeds. No sequence of
  later operations on the handle (read, write, seek, get-handle, check, delete, move,
  close) changes \<open>write_flags\<close>.
\<close>

theorem cached_file_open_mode_selection:
  "calls (snd (snd (cached_file_open h fname AVIO_FLAG_READ env w))) ! length (calls w) =
       Fopen (snd (av_strstart fname ''cf:'' fname)) ''rb''
   \<and> write_flags (priv_data (fst (snd (cached_file_open h fname AVIO_FLAG_READ env w)))) = 0
   \<and> calls (snd (snd (cached_file_open h fname AVIO_FLAG_WRITE env w))) ! length (calls w) =
       Fopen (snd (av_strstart fname ''cf:'' fname)) ''wb''
   \<and> write_flags (priv_data (fst (snd (cached_file_open h fname AVIO_FLAG_WRITE env w)))) = 1
   \<and> calls (snd (snd (cached_file_open h fname AVIO_FLAG_READ_WRITE env w))) ! length (calls w) =
       Fopen (snd (av_strstart fname ''cf:'' fname)) ''w+b''
   \<and> write_flags (priv_data (fst (snd (cached_file_open h fname AVIO_FLAG_READ_WRITE env w)))) = 1
   \<and> write_flags (priv_data (fst (run ops (h', w')))) = write_flags (priv_data h')"
  using open_rb [OF flag_bits(1), of h fname env w]
        open_wb [OF flag_bits(3) flag_bits(4), of h fname env w]
        open_wpb [OF flag_bits(6) flag_bits(5), of h fname env w]
  by (simp add: run_handle)

text \<open>
  Claim C6, at a concrete input: opening \<open>cf:test.bin\<close> for writing calls \<open>fopen\<close> on
  \<open>test.bin\<close> with mode \<open>wb\<close>, and the flag is still 1 after a write, a size query and a
  close.
\<close>

theorem cached_file_open_mode_selection_witness:
  "calls (snd (snd (cached_file_open (h_new 1048576) ''cf:test.bin'' AVIO_FLAG_WRITE open_ok w_new)))
     ! length (calls w_new) = Fopen ''test.bin'' ''wb''
   \<and> write_flags (priv_data (fst (run
        [Write 4096 \<lparr>avail = 4096, io_error = None\<rparr>,
         Seek 0 AVSEEK_SIZE \<lparr>seek_fflush = Ok (), seek_fstat = Ok \<lparr>st_mode = 0x8180, st_size = 4096\<rparr>,
                             seek_fseeko = Ok 0, seek_av_log = None, seek_ftello = Ok ()\<rparr>,
         Close \<lparr>close_fflush = Ok (), close_fsync = Ok (), close_fclose = Ok ()\<rparr>]
        (h_wr, w_wr)))) = 1"
  using cached_file_open_mode_selection [of "h_new 1048576" "''cf:test.bin''" open_ok w_new
          "[Write 4096 \<lparr>avail = 4096, io_error = None\<rparr>,
            Seek 0 AVSEEK_SIZE \<lparr>seek_fflush = Ok (), seek_fstat = Ok \<lparr>st_mode = 0x8180, st_size = 4096\<rparr>,
                                seek_fseeko = Ok 0, seek_av_log = None, seek_ftello = Ok ()\<rparr>,
            Close \<lparr>close_fflush = Ok (), close_fsync = Ok (), close_fclose = Ok ()\<rparr>]"
          h_wr w_wr]
  by (simp add: h_wr_def)

text \<open>
  Claim C9. When the flags contain neither the read flag nor the write flag,
  \<open>cached_file_open\<close> calls \<open>fopen\<close> with mode \<open>rb\<close> and stores 0 in \<open>write_flags\<close>; the
  flags are no reason to fail: whenever \<open>fopen\<close> returns a stream, the operation returns 0.
\<close>

theorem cached_file_open_no_mode_flag:
  "flags AND AVIO_FLAG_READ = 0 \<Longrightarrow> flags AND AVIO_FLAG_WRITE = 0 \<Longrightarrow>
     calls (snd (snd (cached_file_open h fname flags env w))) ! length (calls w) =
       Fopen (snd (av_strstart fname ''cf:'' fname)) ''rb''
   \<and> write_flags (priv_data (fst (snd (cached_file_open h fname flags env w)))) = 0
   \<and> (\<forall>fp fdn. open_fopen env = Ok (fp, fdn) \<and> fp \<noteq> 0 \<longrightarrow>
         fst (cached_file_open h fname flags env w) = 0)"
  using open_rb [of flags h fname env w] open_returns_0 [of env _ _ h fname flags w]
  by blast

text \<open>
  Claim C9, at a concrete input: flags 8 (neither bit 0 nor bit 1) open \<open>cf:test.bin\<close>
  exactly as the read-only mode does.
\<close>

theorem cached_file_open_no_mode_flag_witness:
  "(8 :: 32 word) AND AVIO_FLAG_READ = 0 \<and> (8 :: 32 word) AND AVIO_FLAG_WRITE = 0
   \<and> open_fopen open_ok = Ok (100, 3)
   \<and> cached_file_open (h_new 0) ''cf:test.bin'' 8 open_ok w_new = (0, h_rd, w_rd)"
  using cached_file_open_no_mode_flag [of 8 "h_new 0" "''cf:test.bin''" open_ok w_new]
  by (simp add: cached_file_open_def h_new_def open_ok_def w_new_def h_rd_def w_rd_def
        AVIO_FLAG_WRITE_def AVIO_FLAG_READ_def fopen_def av_malloc_def setvbuf_def fileno_def
        issue_def Let_def)

text \<open>
  Claim C7, as stated, fails for buffer size 0: the source then stores \<open>NULL\<close> in \<open>buf\<close>
  and issues no \<open>setvbuf\<close> call at all, so the stream keeps the buffering \<open>fopen\<close> gave
  it; it is not switched to unbuffered transfers.
\<close>

theorem cached_file_open_size_0_not_unbuffered:
  "cached_file_open (h_new 0) ''cf:test.bin'' AVIO_FLAG_READ open_ok w_new = (0, h_rd, w_rd)
   \<and> buf_size (priv_data (h_new 0)) = 0
   \<and> map_option s_buffering (streams w_rd (f_ptr (priv_data h_rd))) = Some LibcDefault
   \<and> map_option s_buffering (streams w_rd (f_ptr (priv_data h_rd))) \<noteq> Some Unbuffered"
  by (simp add: cached_file_open_def h_new_def open_ok_def w_new_def h_rd_def w_rd_def
        AVIO_FLAG_WRITE_def AVIO_FLAG_READ_def fopen_def av_malloc_def setvbuf_def fileno_def
        issue_def Let_def)

text \<open>
  Claim C7, amended. For every successful open with configured buffer size \<open>s\<close>: if
  \<open>s\<close> is not 0 and both the allocation and the \<open>setvbuf\<close> call succeed, the handle owns
  a block of exactly \<open>s\<close> bytes, and the stream is fully buffered on that block with size
  \<open>s\<close>; if \<open>s\<close> is 0 the buffer pointer is \<open>NULL\<close>, nothing is allocated and the only
  calls are \<open>fopen\<close> and \<open>fileno\<close>, so the stream keeps the default buffering of the C
  library. No sequence of later operations changes the buffer pointer or allocates.
\<close>

theorem cached_file_open_buffer:
  "open_fopen env = Ok (fp, fdn) \<Longrightarrow> fp \<noteq> 0 \<Longrightarrow>
   cached_file_open h fname flags env w = (r, h', w') \<Longrightarrow>
     r = 0
   \<and> (buf_size (priv_data h) \<noteq> 0 \<and> open_av_malloc env \<noteq> 0 \<and> open_setvbuf env = Ok () \<longrightarrow>
         buf (priv_data h') = open_av_malloc env
       \<and> heap w' (buf (priv_data h')) = Some (scast (buf_size (priv_data h)))
       \<and> map_option s_buffering (streams w' fp) =
           Some (FullyBuffered (buf (priv_data h')) (scast (buf_size (priv_data h))))
       \<and> (0 < sint (buf_size (priv_data h)) \<longrightarrow>
             uint (scast (buf_size (priv_data h)) :: 64 word) = sint (buf_size (priv_data h))))
   \<and> (buf_size (priv_data h) = 0 \<longrightarrow>
         buf (priv_data h') = 0
       \<and> heap w' = heap w
       \<and> map_option s_buffering (streams w' fp) = Some LibcDefault
       \<and> (\<exists>mode. calls w' =
             calls w @ [Fopen (snd (av_strstart fname ''cf:'' fname)) mode, Fileno fp]))
   \<and> buf (priv_data (fst (run ops (h', w')))) = buf (priv_data h')
   \<and> filter is_av_malloc (calls (snd (run ops (h', w')))) = filter is_av_malloc (calls w')"
proof -
  assume ok: "open_fopen env = Ok (fp, fdn)" and nz: "fp \<noteq> 0"
    and res: "cached_file_open h fname flags env w = (r, h', w')"
  have r0: "r = 0" using open_returns_0 [OF ok nz, of h fname flags w] res by simp
  have sz: "0 < sint (buf_size (priv_data h)) \<longrightarrow>
      uint (scast (buf_size (priv_data h)) :: 64 word) = sint (buf_size (priv_data h))"
    by (simp add: uint_scast_nonneg)
  show ?thesis
    using r0 sz open_with_buffer [OF ok nz _ _ _ res] open_without_buffer [OF ok nz _ res]
    by (auto simp add: run_handle run_no_malloc)
qed

text \<open>
  Claim C7, amended, at two concrete inputs: the write mode with the default size of
  1 MiB, where the block at 4096 is attached to stream 100, and the read mode with
  size 0, where the stream keeps its default buffering.
\<close>

theorem cached_file_open_buffer_witness:
  "open_fopen open_ok = Ok (100, 3) \<and> (100 :: nat) \<noteq> 0
   \<and> cached_file_open (h_new 1048576) ''cf:test.bin'' AVIO_FLAG_WRITE open_ok w_new = (0, h_wr, w_wr)
   \<and> buf (priv_data h_wr) = 4096
   \<and> heap w_wr 4096 = Some 1048576
   \<and> map_option s_buffering (streams w_wr 100) = Some (FullyBuffered 4096 1048576)
   \<and> cached_file_open (h_new 0) ''cf:test.bin'' AVIO_FLAG_READ open_ok w_new = (0, h_rd, w_rd)
   \<and> buf (priv_data h_rd) = 0
   \<and> map_option s_buffering (streams w_rd 100) = Some LibcDefault"
proof -
  have ok: "open_fopen open_ok = Ok (100, 3)" by (simp add: open_ok_def)
  have nz: "(100 :: nat) \<noteq> 0" by simp
  note wr = cached_file_open_buffer [OF ok nz open_write_example, of "[]"]
  note rd = cached_file_open_buffer [OF ok nz open_read_example, of "[]"]
  show ?thesis
    using wr rd ok open_write_example open_read_example
    by (simp add: h_new_def open_ok_def h_wr_def w_wr_def h_rd_def w_rd_def)
qed

section \<open>Close\<close>

lemma close_failure_keeps_buffer:
  "close_fclose env = Err e \<Longrightarrow>
     heap (snd (cached_file_close h env w)) = heap w
   \<and> filter (\<lambda>c. c = Av_free (buf (priv_data h))) (calls (snd (cached_file_close h env w))) =
       filter (\<lambda>c. c = Av_free (buf (priv_data h))) (calls w)"
  by (simp add: cached_file_close_def fflush_def fsync_def fclose_def Let_def
        split: outcome.splits)

lemma close_success_frees_buffer:
  "close_fclose env = Ok () \<Longrightarrow> heap w (buf (priv_data h)) \<noteq> None \<Longrightarrow> buf (priv_data h) \<noteq> 0 \<Longrightarrow>
     heap (snd (cached_file_close h env w)) = (heap w)(buf (priv_data h) := None)
   \<and> bad_free (snd (cached_file_close h env w)) = bad_free w
   \<and> filter (\<lambda>c. c = Av_free (buf (priv_data h))) (calls (snd (cached_file_close h env w))) =
       filter (\<lambda>c. c = Av_free (buf (priv_data h))) (calls w) @ [Av_free (buf (priv_data h))]"
  by (auto simp add: cached_file_close_def fflush_def fsync_def fclose_def av_free_def Let_def
        split: outcome.splits)

text \<open>
  Claim C1 asks that close releases the buffer exactly once whether it succeeds or
  fails. The source does so when \<open>fclose\<close> succeeds (\<open>close_success_frees_buffer\<close>), and
  returns before \<open>av_free\<close> when \<open>fclose\<close> fails. Evaluated on the handle that open leaves
  for \<open>cf:test.bin\<close> in write mode with the default buffer size, with \<open>fclose\<close> failing
  with errno 28: close returns -28, the block of 1 MiB at 4096 is still allocated, and
  no \<open>av_free\<close> of it was issued.
\<close>

theorem cached_file_close_leaks_on_fclose_failure:
  "cached_file_open (h_new 1048576) ''cf:test.bin'' AVIO_FLAG_WRITE open_ok w_new = (0, h_wr, w_wr)
   \<and> heap w_wr (buf (priv_data h_wr)) = Some 1048576
   \<and> sint (fst (cached_file_close h_wr
        \<lparr>close_fflush = Ok (), close_fsync = Ok (), close_fclose = Err 28\<rparr> w_wr)) = - 28
   \<and> heap (snd (cached_file_close h_wr
        \<lparr>close_fflush = Ok (), close_fsync = Ok (), close_fclose = Err 28\<rparr> w_wr))
        (buf (priv_data h_wr)) = Some 1048576
   \<and> Av_free (buf (priv_data h_wr)) \<notin> set (calls (snd (cached_file_close h_wr
        \<lparr>close_fflush = Ok (), close_fsync = Ok (), close_fclose = Err 28\<rparr> w_wr)))"
  by (simp add: cached_file_open_def h_new_def open_ok_def w_new_def h_wr_def w_wr_def
        AVIO_FLAG_WRITE_def AVIO_FLAG_READ_def fopen_def av_malloc_def setvbuf_def fileno_def
        issue_def Let_def cached_file_close_def fflush_def fsync_def fclose_def AVERROR_def)

text \<open>
  Claim C2, as stated, fails where it promises an error for a failed sync: on a
  write-mode handle, with \<open>fsync\<close> failing with errno 5 and \<open>fclose\<close> succeeding, close
  returns 0.
\<close>

theorem cached_file_close_ignores_fsync_failure:
  "write_flags (priv_data h_wr) \<noteq> 0
   \<and> fst (cached_file_close h_wr
        \<lparr>close_fflush = Ok (), close_fsync = Err 5, close_fclose = Ok ()\<rparr> w_wr) = 0"
  by (simp add: h_wr_def w_wr_def cached_file_close_def fflush_def fsync_def fclose_def
        av_free_def issue_def Let_def)

text \<open>
  Claim C2, amended. For every handle whose write-mode flag is set, close calls
  \<open>fflush\<close> on the stream, then \<open>fsync\<close> on the descriptor, then \<open>fclose\<close>, in that
  order. Its result depends on \<open>fclose\<close> alone: 0 when \<open>fclose\<close> succeeds, and the negated
  errno of \<open>fclose\<close> when it fails, which is negative for a positive errno. The results
  of \<open>fflush\<close> and \<open>fsync\<close> are not looked at.
\<close>

theorem cached_file_close_write_mode:
  "write_flags (priv_data h) \<noteq> 0 \<Longrightarrow>
     (\<exists>rest. calls (snd (cached_file_close h env w)) =
        calls w @ [Fflush (f_ptr (priv_data h)), Fsync (fd (priv_data h)),
                   Fclose (f_ptr (priv_data h))] @ rest)
   \<and> (close_fclose env = Ok () \<longrightarrow> fst (cached_file_close h env w) = 0)
   \<and> (\<forall>e. close_fclose env = Err e \<longrightarrow>
          fst (cached_file_close h env w) = AVERROR e
        \<and> (0 < sint e \<longrightarrow> sint (fst (cached_file_close h env w)) < 0))"
  by (auto simp add: cached_file_close_def fflush_def fsync_def fclose_def av_free_def
        Let_def sint_AVERROR_neg split: outcome.splits)

text \<open>
  Claim C2, amended, at two concrete inputs on the write-mode handle: with \<open>fclose\<close>
  failing with errno 28 the calls are \<open>fflush\<close>, \<open>fsync\<close>, \<open>fclose\<close> and the result is
  negative; with \<open>fclose\<close> succeeding the result is 0 and the buffer is freed last.
\<close>

theorem cached_file_close_write_mode_witness:
  "write_flags (priv_data h_wr) \<noteq> 0
   \<and> calls (snd (cached_file_close h_wr
        \<lparr>close_fflush = Ok (), close_fsync = Err 5, close_fclose = Err 28\<rparr> w_wr)) =
      calls w_wr @ [Fflush 100, Fsync 3, Fclose 100]
   \<and> sint (fst (cached_file_close h_wr
        \<lparr>close_fflush = Ok (), close_fsync = Err 5, close_fclose = Err 28\<rparr> w_wr)) < 0
   \<and> calls (snd (cached_file_close h_wr
        \<lparr>close_fflush = Ok (), close_fsync = Ok (), close_fclose = Ok ()\<rparr> w_wr)) =
      calls w_wr @ [Fflush 100, Fsync 3, Fclose 100, Av_free 4096]
   \<and> fst (cached_file_close h_wr
        \<lparr>close_fflush = Ok (), close_fsync = Ok (), close_fclose = Ok ()\<rparr> w_wr) = 0"
  using cached_file_close_write_mode
          [of h_wr "\<lparr>close_fflush = Ok (), close_fsync = Err 5, close_fclose = Err 28\<rparr>" w_wr]
        cached_file_close_write_mode
          [of h_wr "\<lparr>close_fflush = Ok (), close_fsync = Ok (), close_fclose = Ok ()\<rparr>" w_wr]
  by (simp add: h_wr_def w_wr_def cached_file_close_def fflush_def fsync_def fclose_def
        av_free_def issue_def Let_def)

section \<open>Read and write\<close>

lemma fread_count:
  "0 \<le> sint n \<Longrightarrow>
     sint (fst (cached_file_read h n t w)) = uint (min (avail t) (scast n))
   \<and> uint (min (avail t) (scast n :: 64 word)) \<le> sint n"
proof -
  assume nn: "0 \<le> sint n"
  have le: "min (avail t) (scast n) \<le> (scast n :: 64 word)" by simp
  show ?thesis
    using cast_back [OF nn le]
    by (simp add: cached_file_read_def fread_def Let_def)
qed

lemma fwrite_count:
  "0 \<le> sint n \<Longrightarrow>
     sint (fst (cached_file_write h n t w)) = uint (min (avail t) (scast n))
   \<and> uint (min (avail t) (scast n :: 64 word)) \<le> sint n"
proof -
  assume nn: "0 \<le> sint n"
  have le: "min (avail t) (scast n) \<le> (scast n :: 64 word)" by simp
  show ?thesis
    using cast_back [OF nn le]
    by (simp add: cached_file_write_def fwrite_def Let_def)
qed

text \<open>
  Claim C10. For every handle and every requested size \<open>n \<ge> 0\<close>, read and write return
  a value between 0 and \<open>n\<close>, never a negative code; the value does not depend on
  whether the transfer met an I/O error, so an error cannot be told from a short
  transfer by the result.
\<close>

theorem cached_file_transfer_range:
  "0 \<le> sint n \<Longrightarrow>
     0 \<le> sint (fst (cached_file_read h n t w))
   \<and> sint (fst (cached_file_read h n t w)) \<le> sint n
   \<and> fst (cached_file_read h n (t\<lparr>io_error := x\<rparr>) w) = fst (cached_file_read h n t w)
   \<and> 0 \<le> sint (fst (cached_file_write h n t w))
   \<and> sint (fst (cached_file_write h n t w)) \<le> sint n
   \<and> fst (cached_file_write h n (t\<lparr>io_error := x\<rparr>) w) = fst (cached_file_write h n t w)"
  using fread_count [of n h t w] fwrite_count [of n h t w]
  by (simp add: cached_file_read_def cached_file_write_def fread_def fwrite_def Let_def)

text \<open>
  Claim C10, at a concrete input: asked for 4096 bytes, a read from a stream that has
  1000 left returns 1000 and a write to a stream that takes 5000 returns 4096.
\<close>

theorem cached_file_transfer_range_witness:
  "0 \<le> sint (4096 :: 32 word)
   \<and> sint (fst (cached_file_read h_rd 4096 \<lparr>avail = 1000, io_error = None\<rparr> w_rd)) = 1000
   \<and> sint (fst (cached_file_write h_wr 4096 \<lparr>avail = 5000, io_error = None\<rparr> w_wr)) = 4096"
  using cached_file_transfer_range [of 4096 h_rd "\<lparr>avail = 1000, io_error = None\<rparr>" w_rd]
  by (simp add: cached_file_read_def cached_file_write_def fread_def fwrite_def Let_def)

text \<open>
  Claim C3, as stated, fails: a read that meets an I/O error (errno 5) before any
  byte arrives returns 0, and a write that meets one (errno 28) after 1000 bytes returns
  1000; neither result is negative.
\<close>

theorem cached_file_transfer_error_not_negative:
  "sint (fst (cached_file_read h_rd 4096 \<lparr>avail = 0, io_error = Some 5\<rparr> w_rd)) = 0
   \<and> sint (fst (cached_file_write h_wr 4096 \<lparr>avail = 1000, io_error = Some 28\<rparr> w_wr)) = 1000"
  by (simp add: cached_file_read_def cached_file_write_def fread_def fwrite_def Let_def)

text \<open>
  Claim C3, amended. For every read and write of a size \<open>n \<ge> 0\<close> whose transfer meets
  an I/O error, the result is not a negative code: it is the number of bytes transferred
  before the error, nonnegative, and equal to the result of the same transfer without
  the error. The platform error value is left in errno only.
\<close>

theorem cached_file_transfer_io_error:
  "0 \<le> sint n \<Longrightarrow> io_error t = Some e \<Longrightarrow>
     sint (fst (cached_file_read h n t w)) = uint (min (avail t) (scast n))
   \<and> 0 \<le> sint (fst (cached_file_read h n t w))
   \<and> fst (cached_file_read h n t w) = fst (cached_file_read h n (t\<lparr>io_error := None\<rparr>) w)
   \<and> errno (snd (cached_file_read h n t w)) = e
   \<and> sint (fst (cached_file_write h n t w)) = uint (min (avail t) (scast n))
   \<and> 0 \<le> sint (fst (cached_file_write h n t w))
   \<and> fst (cached_file_write h n t w) = fst (cached_file_write h n (t\<lparr>io_error := None\<rparr>) w)
   \<and> errno (snd (cached_file_write h n t w)) = e"
  using fread_count [of n h t w] fwrite_count [of n h t w]
  by (simp add: cached_file_read_def cached_file_write_def fread_def fwrite_def advance_def Let_def)

text \<open>
  Claim C3, amended, at a concrete input: a write of 4096 bytes that fails with errno 28
  after 1000 bytes returns 1000 and leaves 28 in errno.
\<close>

theorem cached_file_transfer_io_error_witness:
  "0 \<le> sint (4096 :: 32 word)
   \<and> io_error \<lparr>avail = 1000, io_error = Some 28\<rparr> = Some 28
   \<and> sint (fst (cached_file_write h_wr 4096 \<lparr>avail = 1000, io_error = Some 28\<rparr> w_wr)) = 1000
   \<and> errno (snd (cached_file_write h_wr 4096 \<lparr>avail = 1000, io_error = Some 28\<rparr> w_wr)) = 28"
  using cached_file_transfer_io_error [of 4096 "\<lparr>avail = 1000, io_error = Some 28\<rparr>" 28 h_wr w_wr]
  by (simp add: cached_file_write_def fwrite_def advance_def Let_def)

section \<open>Seek\<close>

text \<open>
  Claim C4. A seek with \<open>whence = AVSEEK_SIZE\<close> calls \<open>fflush\<close> on the stream and then
  \<open>fstat\<close> on the descriptor, and nothing else; no stream changes, so the position
  stays where it was. When \<open>fstat\<close> succeeds the result is the \<open>st_size\<close> it reports; when
  it fails with errno \<open>e\<close> the result is \<open>AVERROR e\<close> widened to 64 bits, negative for a
  positive errno.
\<close>

theorem cached_file_seek_size:
  "cached_file_seek h pos AVSEEK_SIZE env w = (r, w') \<Longrightarrow>
     calls w' = calls w @ [Fflush (f_ptr (priv_data h)), Fstat (fd (priv_data h))]
   \<and> streams w' = streams w
   \<and> (\<forall>st. seek_fstat env = Ok st \<longrightarrow> r = st_size st)
   \<and> (\<forall>e. seek_fstat env = Err e \<longrightarrow>
          r = scast (AVERROR e) \<and> (0 < sint e \<longrightarrow> sint r < 0))"
  by (auto simp add: cached_file_seek_def fflush_def fstat_def Let_def sint_scast_up
        sint_AVERROR_neg split: outcome.splits)

text \<open>
  Claim C4, at two concrete inputs on the write-mode handle: \<open>fstat\<close> reporting 1000
  bytes gives 1000 after the calls \<open>fflush\<close> and \<open>fstat\<close>, with the stream at position 0
  as before; \<open>fstat\<close> failing with errno 5 gives -5.
\<close>

theorem cached_file_seek_size_witness:
  "fst (cached_file_seek h_wr 7 AVSEEK_SIZE
          \<lparr>seek_fflush = Ok (), seek_fstat = Ok \<lparr>st_mode = 0x8180, st_size = 1000\<rparr>,
           seek_fseeko = Ok 7, seek_av_log = None, seek_ftello = Ok ()\<rparr> w_wr) = 1000
   \<and> calls (snd (cached_file_seek h_wr 7 AVSEEK_SIZE
          \<lparr>seek_fflush = Ok (), seek_fstat = Ok \<lparr>st_mode = 0x8180, st_size = 1000\<rparr>,
           seek_fseeko = Ok 7, seek_av_log = None, seek_ftello = Ok ()\<rparr> w_wr)) =
       calls w_wr @ [Fflush 100, Fstat 3]
   \<and> map_option s_pos (streams (snd (cached_file_seek h_wr 7 AVSEEK_SIZE
          \<lparr>seek_fflush = Ok (), seek_fstat = Ok \<lparr>st_mode = 0x8180, st_size = 1000\<rparr>,
           seek_fseeko = Ok 7, seek_av_log = None, seek_ftello = Ok ()\<rparr> w_wr)) 100) = Some 0
   \<and> sint (fst (cached_file_seek h_wr 7 AVSEEK_SIZE
          \<lparr>seek_fflush = Ok (), seek_fstat = Err 5,
           seek_fseeko = Ok 7, seek_av_log = None, seek_ftello = Ok ()\<rparr> w_wr)) = - 5"
  using cached_file_seek_size [of h_wr 7
          "\<lparr>seek_fflush = Ok (), seek_fstat = Ok \<lparr>st_mode = 0x8180, st_size = 1000\<rparr>,
            seek_fseeko = Ok 7, seek_av_log = None, seek_ftello = Ok ()\<rparr>" w_wr
          "fst (cached_file_seek h_wr 7 AVSEEK_SIZE
             \<lparr>seek_fflush = Ok (), seek_fstat = Ok \<lparr>st_mode = 0x8180, st_size = 1000\<rparr>,
              seek_fseeko = Ok 7, seek_av_log = None, seek_ftello = Ok ()\<rparr> w_wr)"
          "snd (cached_file_seek h_wr 7 AVSEEK_SIZE
             \<lparr>seek_fflush = Ok (), seek_fstat = Ok \<lparr>st_mode = 0x8180, st_size = 1000\<rparr>,
              seek_fseeko = Ok 7, seek_av_log = None, seek_ftello = Ok ()\<rparr> w_wr)"]
        cached_file_seek_size [of h_wr 7
          "\<lparr>seek_fflush = Ok (), seek_fstat = Err 5,
            seek_fseeko = Ok 7, seek_av_log = None, seek_ftello = Ok ()\<rparr>" w_wr
          "fst (cached_file_seek h_wr 7 AVSEEK_SIZE
             \<lparr>seek_fflush = Ok (), seek_fstat = Err 5,
              seek_fseeko = Ok 7, seek_av_log = None, seek_ftello = Ok ()\<rparr> w_wr)"
          "snd (cached_file_seek h_wr 7 AVSEEK_SIZE
             \<lparr>seek_fflush = Ok (), seek_fstat = Err 5,
              seek_fseeko = Ok 7, seek_av_log = None, seek_ftello = Ok ()\<rparr> w_wr)"]
  by (simp add: h_wr_def w_wr_def cached_file_seek_def fflush_def fstat_def issue_def Let_def
        AVERROR_def)

section \<open>Check, delete and move\<close>

lemma cached_file_check_mask:
  "fs (snd (av_strstart (filename h) ''file:'' (filename h))) = Ok st \<Longrightarrow>
     (fst (cached_file_check h msk fs w) AND AVIO_FLAG_READ \<noteq> 0) =
       (msk AND AVIO_FLAG_READ \<noteq> 0 \<and> st_mode st AND S_IRUSR \<noteq> 0)
   \<and> (fst (cached_file_check h msk fs w) AND AVIO_FLAG_WRITE \<noteq> 0) =
       (msk AND AVIO_FLAG_WRITE \<noteq> 0 \<and> st_mode st AND S_IWUSR \<noteq> 0)"
  using and_or_bits [of "st_mode st AND S_IRUSR \<noteq> 0" msk "st_mode st AND S_IWUSR \<noteq> 0"]
  by (auto simp add: cached_file_check_def stat_def Let_def AVIO_FLAG_READ_def AVIO_FLAG_WRITE_def)

lemma cached_file_check_failure:
  "fs (snd (av_strstart (filename h) ''file:'' (filename h))) = Err e \<Longrightarrow>
     fst (cached_file_check h msk fs w) = AVERROR e"
  by (simp add: cached_file_check_def stat_def Let_def)

text \<open>
  Claim C5 asks that the check strips the scheme prefix of the path before it queries
  the file system. The protocol is registered under the scheme \<open>cf\<close> and open strips
  \<open>cf:\<close>, but the check strips \<open>file:\<close>. Evaluated on the handle of \<open>cf:test.bin\<close>, in a
  file system where \<open>test.bin\<close> exists with owner-read permission only and nothing else
  exists, with both bits requested: \<open>stat\<close> is called on \<open>cf:test.bin\<close> and the result is
  -2, where the path without its prefix gives the readable bit alone. The other
  parts of the claim hold for the path the source queries (\<open>cached_file_check_mask\<close>,
  \<open>cached_file_check_failure\<close>).
\<close>

theorem cached_file_check_keeps_cf_prefix:
  "filename (h_new 1048576) = ''cf:test.bin''
   \<and> calls (snd (cached_file_check (h_new 1048576) AVIO_FLAG_READ_WRITE fs_test w_new)) =
       [Stat ''cf:test.bin'']
   \<and> sint (fst (cached_file_check (h_new 1048576) AVIO_FLAG_READ_WRITE fs_test w_new)) = - 2
   \<and> fst (cached_file_check ((h_new 1048576)\<lparr>filename := ''test.bin''\<rparr>)
            AVIO_FLAG_READ_WRITE fs_test w_new) = AVIO_FLAG_READ"
  by (simp add: h_new_def w_new_def cached_file_check_def stat_def fs_test_def issue_def Let_def
        AVERROR_def AVIO_FLAG_READ_WRITE_def AVIO_FLAG_READ_def AVIO_FLAG_WRITE_def
        S_IRUSR_def S_IWUSR_def)

text \<open>
  Claim C8. Delete and move return the same fixed code for every handle: \<open>AVERROR ENOSYS\<close>,
  which is -38, whatever their arguments are.
\<close>

theorem cached_file_delete_move_enosys:
  "cached_file_delete h = AVERROR ENOSYS
   \<and> cached_file_move h_src h_dst = AVERROR ENOSYS
   \<and> sint (AVERROR ENOSYS) = - 38"
  by (simp add: cached_file_delete_def cached_file_move_def AVERROR_def ENOSYS_def)

text \<open>
  Claim C8, at concrete handles: an unopened handle and an open one give the same
  negative code.
\<close>

theorem cached_file_delete_move_enosys_witness:
  "sint (cached_file_delete (h_new 0)) = - 38
   \<and> sint (cached_file_delete h_wr) = - 38
   \<and> sint (cached_file_move h_wr h_rd) = - 38"
  using cached_file_delete_move_enosys [of "h_new 0" h_wr h_rd]
        cached_file_delete_move_enosys [of h_wr h_wr h_rd]
  by simp

end
